theory Spec2Isabelle
  imports Complex_Main "HOL-Library.Word"
begin

section \<open>Water monitor sketch: data model\<close>

text \<open>
  The sketch \<^verbatim>\<open>src/code.ino\<close> is embedded as follows.
  \<^item> \<^verbatim>\<open>float\<close> values are read as the real numbers they denote and float arithmetic as
    exact arithmetic on \<^typ>\<open>real\<close>: rounding, infinities and NaN are outside the model.
  \<^item> \<^verbatim>\<open>int\<close> samples of \<^verbatim>\<open>analogRead\<close> are \<^typ>\<open>int\<close>.
  \<^item> \<^verbatim>\<open>unsigned long\<close> (the \<^verbatim>\<open>millis()\<close> counter) is \<^typ>\<open>32 word\<close>: subtraction wraps.
  \<^item> the \<^verbatim>\<open>uint8_t\<close> fields of the clock's \<^verbatim>\<open>DateTime\<close> are \<^typ>\<open>8 word\<close>.
  \<^item> the globals \<^verbatim>\<open>lastReadingTime\<close>, \<^verbatim>\<open>isRunning\<close>, \<^verbatim>\<open>temperature\<close> form a record that is
    passed in and returned.
  \<^item> everything written to a serial port, and every \<^verbatim>\<open>delay\<close>, is an event of a trace.
\<close>

definition PH_VOLTAGE_REF :: real where
  "PH_VOLTAGE_REF = 5.0"

definition TDS_VOLTAGE_REF :: real where
  "TDS_VOLTAGE_REF = 5.0"

definition CALIBRATION_FACTOR :: real where
  "CALIBRATION_FACTOR = 0.7"

definition readingInterval :: "32 word" where
  "readingInterval = 60000"

record globals =
  lastReadingTime :: "32 word"
  isRunning :: bool
  temperature :: real

definition initial_globals :: globals where
  "initial_globals = \<lparr>lastReadingTime = 0, isRunning = True, temperature = 25.0\<rparr>"

record DateTime =
  hour :: "8 word"
  minute :: "8 word"
  second :: "8 word"

text \<open>
  \<^verbatim>\<open>Serial.print(s)\<close>, \<^verbatim>\<open>Serial.println(s)\<close>, \<^verbatim>\<open>Serial.println(x, d)\<close> on the console,
  \<^verbatim>\<open>mySerial.println(x, d)\<close> on the link to the companion board, and \<^verbatim>\<open>delay(ms)\<close>.
\<close>

datatype event =
    SerialPrint string
  | SerialPrintln string
  | SerialPrintlnFloat real nat
  | MySerialPrintlnFloat real nat
  | Delay nat

section \<open>Helper functions\<close>

definition mapVoltageToPH :: "real \<Rightarrow> real \<Rightarrow> real \<Rightarrow> real \<Rightarrow> real \<Rightarrow> real" where
  "mapVoltageToPH voltage pHLow pHHigh voltageLow voltageHigh =
     pHLow + ((voltage - voltageLow) * (pHHigh - pHLow)) / (voltageHigh - voltageLow)"

definition evaluatePHQuality :: "real \<Rightarrow> real \<Rightarrow> string" where
  "evaluatePHQuality voltage pH =
     (if voltage \<le> 2.29 then ''Acidic - Bad''
      else if voltage \<ge> 2.3 \<and> voltage \<le> 2.5 then ''Good''
      else ''Bad - Alkaline'')"

definition evaluateTurbidityQuality :: "real \<Rightarrow> string" where
  "evaluateTurbidityQuality voltage =
     (if voltage \<ge> 2.0 \<and> voltage \<le> 5.0 then ''Good'' else ''Bad'')"

definition evaluateTDSQuality :: "real \<Rightarrow> string" where
  "evaluateTDSQuality tds = (if tds \<le> 500 then ''Good'' else ''Bad'')"

text \<open>
  \<^verbatim>\<open>calculateTDS\<close> reads the global \<^verbatim>\<open>temperature\<close>; the globals are its first argument.
\<close>

definition calculateTDS :: "globals \<Rightarrow> int \<Rightarrow> real" where
  "calculateTDS g rawValue =
     (let voltage = (real_of_int rawValue / 1024.0) * TDS_VOLTAGE_REF;
          tds = (133.42 * voltage * voltage * voltage - 255.86 * voltage * voltage
                   + 857.39 * voltage) * 0.5;
          tds' = tds * CALIBRATION_FACTOR;
          compensation = 1.0 + 0.02 * (temperature g - 25.0)
      in tds' / compensation)"

text \<open>
  The verdict of \<^verbatim>\<open>evaluateOverallQuality\<close> (its local \<^verbatim>\<open>overall\<close>), and the lines it prints.
  The advisory line starts with the six bytes of a warning sign in UTF-8.
\<close>

definition overallOf :: "string \<Rightarrow> string \<Rightarrow> string \<Rightarrow> string" where
  "overallOf pHQuality turbidityQuality tdsQuality =
     (if pHQuality = ''Good'' \<and> turbidityQuality = ''Good'' \<and> tdsQuality = ''Good''
      then ''Excellent'' else ''Poor, Needs Treatment'')"

definition advisory :: string where
  "advisory = [CHR 0xE2, CHR 0x9A, CHR 0xA0, CHR 0xEF, CHR 0xB8, CHR 0x8F]
                @ '' Water may require treatment.''"

definition evaluateOverallQuality :: "string \<Rightarrow> string \<Rightarrow> string \<Rightarrow> event list" where
  "evaluateOverallQuality pHQuality turbidityQuality tdsQuality =
     (let overall = overallOf pHQuality turbidityQuality tdsQuality
      in [SerialPrintln (''Overall Water Quality: '' @ overall)]
         @ (if overall \<noteq> ''Excellent'' then [SerialPrintln advisory] else [])
         @ [SerialPrintln ''------------------------------------------''])"

text \<open>
  \<^verbatim>\<open>sprintf\<close> with \<^verbatim>\<open>%02d\<close>: decimal digits, a minus sign for a negative number, and a
  leading zero when the result would be one character wide.
\<close>

fun dec_digits :: "nat \<Rightarrow> string" where
  "dec_digits n =
     (if n < 10 then [char_of (48 + n)]
      else dec_digits (n div 10) @ [char_of (48 + n mod 10)])"

declare dec_digits.simps [simp del]

definition fmt02d :: "int \<Rightarrow> string" where
  "fmt02d i =
     (if i < 0 then CHR ''-'' # dec_digits (nat (- i))
      else if i < 10 then CHR ''0'' # dec_digits (nat i)
      else dec_digits (nat i))"

text \<open>
  \<^verbatim>\<open>formatTime12Hour(int hour, int minute, int second)\<close>; the parameters are named
  \<open>h\<close>, \<open>m\<close>, \<open>s\<close> here. Its 20-byte buffer holds every result for arguments that come
  from the 8-bit fields of the clock.
\<close>

definition formatTime12Hour :: "int \<Rightarrow> int \<Rightarrow> int \<Rightarrow> string" where
  "formatTime12Hour h m s =
     (let am_pm = (if h \<ge> 12 then ''PM'' else ''AM'');
          h1 = (if h \<ge> 12 \<and> h > 12 then h - 12 else h);
          h2 = (if h1 = 0 then 12 else h1)
      in fmt02d h2 @ '':'' @ fmt02d m @ '':'' @ fmt02d s @ '' '' @ am_pm)"

definition logSensorValues :: "DateTime \<Rightarrow> event list" where
  "logSensorValues now =
     [SerialPrint ''Logging Sensor Values at: '',
      SerialPrintln (formatTime12Hour (uint (hour now)) (uint (minute now)) (uint (second now)))]"

section \<open>Sensor reading\<close>

text \<open>The three \<^verbatim>\<open>analogRead\<close> results of one call of \<^verbatim>\<open>readAllSensors\<close>, in call order.\<close>

record samples =
  pHRaw :: int
  turbRaw :: int
  tdsRaw :: int

text \<open>
  The raw-to-voltage conversions of lines 116 and 138, and the band selection of
  lines 119 to 128 as a function of \<^verbatim>\<open>pHVoltage\<close>.
\<close>

definition pHVoltageOf :: "int \<Rightarrow> real" where
  "pHVoltageOf raw = (real_of_int raw / 1023.0) * PH_VOLTAGE_REF"

definition turbVoltageOf :: "int \<Rightarrow> real" where
  "turbVoltageOf raw = (real_of_int raw / 1023.0) * 5.0"

definition pHFromVoltage :: "real \<Rightarrow> real" where
  "pHFromVoltage pHVoltage =
     (if pHVoltage \<ge> 1.0 \<and> pHVoltage < 1.6 then mapVoltageToPH pHVoltage 7.0 8.0 1.0 1.6
      else if pHVoltage \<ge> 1.6 \<and> pHVoltage < 2.0 then mapVoltageToPH pHVoltage 8.0 9.0 1.6 2.0
      else if pHVoltage \<ge> 2.0 \<and> pHVoltage < 2.5 then mapVoltageToPH pHVoltage 6.0 7.5 2.0 2.5
      else if pHVoltage \<ge> 2.5 \<and> pHVoltage < 3.0 then mapVoltageToPH pHVoltage 7.5 9.0 2.5 3.0
      else 0.0)"

definition readAllSensors :: "globals \<Rightarrow> samples \<Rightarrow> event list" where
  "readAllSensors g a =
     (let pHVoltage = pHVoltageOf (pHRaw a);
          pHValue = pHFromVoltage pHVoltage;
          pHQuality = evaluatePHQuality pHVoltage pHValue;
          turbVoltage = turbVoltageOf (turbRaw a);
          turbQuality = evaluateTurbidityQuality turbVoltage;
          tds = calculateTDS g (tdsRaw a);
          tdsQuality = evaluateTDSQuality tds
      in [SerialPrint ''pH Value: '', SerialPrintlnFloat pHValue 2,
          SerialPrint ''pH Quality: '', SerialPrintln pHQuality,
          MySerialPrintlnFloat pHValue 2,
          SerialPrint ''Turbidity Voltage: '', SerialPrintlnFloat turbVoltage 2,
          SerialPrint ''Turbidity Quality: '', SerialPrintln turbQuality,
          SerialPrint ''TDS Value: '', SerialPrintlnFloat tds 2,
          SerialPrint ''TDS Quality: '', SerialPrintln tdsQuality]
         @ evaluateOverallQuality pHQuality turbQuality tdsQuality)"

section \<open>Main loop\<close>

text \<open>
  The Arduino \<^verbatim>\<open>String\<close> operations used on the command: \<^verbatim>\<open>trim\<close> drops the leading and
  trailing characters that \<^verbatim>\<open>isspace\<close> accepts, \<^verbatim>\<open>equalsIgnoreCase\<close> compares the lengths
  and then the characters after \<^verbatim>\<open>tolower\<close>. Strings are taken to hold no NUL byte.
\<close>

definition isspace :: "char \<Rightarrow> bool" where
  "isspace c = (let n = (of_char c :: nat) in n = 32 \<or> (9 \<le> n \<and> n \<le> 13))"

definition tolower :: "char \<Rightarrow> char" where
  "tolower c = (let n = (of_char c :: nat) in if 65 \<le> n \<and> n \<le> 90 then char_of (n + 32) else c)"

definition trim :: "string \<Rightarrow> string" where
  "trim s = rev (dropWhile isspace (rev (dropWhile isspace s)))"

definition equalsIgnoreCase :: "string \<Rightarrow> string \<Rightarrow> bool" where
  "equalsIgnoreCase s1 s2 = (length s1 = length s2 \<and> map tolower s1 = map tolower s2)"

text \<open>
  What one pass of \<^verbatim>\<open>loop\<close> obtains from its environment:
  \<^item> \<open>serialLine\<close>: \<open>None\<close> when \<^verbatim>\<open>Serial.available()\<close> is 0, otherwise the string that
    \<^verbatim>\<open>Serial.readStringUntil('\n')\<close> returns;
  \<^item> \<open>cmdSamples\<close>: the samples read when the command calls \<^verbatim>\<open>readAllSensors\<close>;
  \<^item> \<open>rtcNow\<close>: the result of \<^verbatim>\<open>rtc.now()\<close> on line 96;
  \<^item> \<open>millisCheck\<close>, \<open>millisSet\<close>: the results of \<^verbatim>\<open>millis()\<close> on lines 104 and 105;
  \<^item> \<open>periodicSamples\<close>: the samples read by the \<^verbatim>\<open>readAllSensors\<close> call of line 106.
\<close>

record loop_env =
  serialLine :: "string option"
  cmdSamples :: samples
  rtcNow :: DateTime
  millisCheck :: "32 word"
  millisSet :: "32 word"
  periodicSamples :: samples

text \<open>Lines 74 to 89: the command, if any.\<close>

definition handleCommand :: "globals \<Rightarrow> loop_env \<Rightarrow> globals \<times> event list" where
  "handleCommand g env =
     (case serialLine env of
        None \<Rightarrow> (g, [])
      | Some line \<Rightarrow>
          (let command = trim line in
           if command = ''st'' then
             (g\<lparr>isRunning := False\<rparr>, [SerialPrintln ''Execution halted.''])
           else if command = ''s'' then
             (g\<lparr>isRunning := True\<rparr>, [SerialPrintln ''Execution resumed.''])
           else if command = ''c'' then
             (g, replicate 50 (SerialPrintln '' ''))
           else if equalsIgnoreCase command ''r'' then
             (g, readAllSensors g (cmdSamples env))
           else (g, [])))"

text \<open>Lines 98 to 102: the daily log.\<close>

definition dailyLog :: "DateTime \<Rightarrow> event list" where
  "dailyLog now =
     (if hour now = 10 \<and> minute now = 0 \<and> second now = 0
      then logSensorValues now @ [Delay 1000] else [])"

definition loop :: "globals \<Rightarrow> loop_env \<Rightarrow> globals \<times> event list" where
  "loop g env =
     (let (g1, out1) = handleCommand g env in
      if \<not> isRunning g1 then (g1, out1 @ [Delay 100])
      else
        (let now = rtcNow env;
             out2 = dailyLog now
         in if millisCheck env - lastReadingTime g1 \<ge> readingInterval then
              (g1\<lparr>lastReadingTime := millisSet env\<rparr>,
               out1 @ out2 @ readAllSensors (g1\<lparr>lastReadingTime := millisSet env\<rparr>) (periodicSamples env))
            else (g1, out1 @ out2)))"

section \<open>Reference definition and sample inputs\<close>

text \<open>
  The TDS formula in the words of the specification: the voltage of the raw value on a
  scale of 1024 and a reference of 5.0, the cubic polynomial times 0.5, the calibration
  factor 0.7, and the division by the temperature compensation.
\<close>

definition tdsFromRaw_spec :: "int \<Rightarrow> real \<Rightarrow> real" where
  "tdsFromRaw_spec raw temperatureC =
     (let v = (real_of_int raw / 1024.0) * 5.0;
          tds = (133.42 * v ^ 3 - 255.86 * v ^ 2 + 857.39 * v) * 0.5
      in tds * 0.7 / (1.0 + 0.02 * (temperatureC - 25.0)))"

text \<open>Inputs of one pass of the loop, used to run the properties below.\<close>

definition sample_time :: "8 word \<Rightarrow> 8 word \<Rightarrow> 8 word \<Rightarrow> DateTime" where
  "sample_time h m s = \<lparr>hour = h, minute = m, second = s\<rparr>"

definition sample_env :: "string option \<Rightarrow> DateTime \<Rightarrow> 32 word \<Rightarrow> loop_env" where
  "sample_env line now ms =
     \<lparr>serialLine = line,
      cmdSamples = \<lparr>pHRaw = 620, turbRaw = 600, tdsRaw = 300\<rparr>,
      rtcNow = now,
      millisCheck = ms,
      millisSet = ms + 1,
      periodicSamples = \<lparr>pHRaw = 480, turbRaw = 600, tdsRaw = 100\<rparr>\<rparr>"

section \<open>Lemmas on the loop\<close>

lemma handleCommand_lastReadingTime:
  "lastReadingTime (fst (handleCommand g env)) = lastReadingTime g"
  by (simp add: handleCommand_def Let_def split: option.split)

lemma handleCommand_temperature:
  "temperature (fst (handleCommand g env)) = temperature g"
  by (simp add: handleCommand_def Let_def split: option.split)

text \<open>The only strings that \<^verbatim>\<open>equalsIgnoreCase("r")\<close> accepts.\<close>

lemma equalsIgnoreCase_r:
  "equalsIgnoreCase c ''r'' \<longleftrightarrow> c = ''r'' \<or> c = ''R''"
proof
  assume h: "equalsIgnoreCase c ''r''"
  then obtain x where c: "c = [x]"
    by (cases c) (auto simp: equalsIgnoreCase_def)
  from h c have t: "tolower x = CHR ''r''"
    by (simp add: equalsIgnoreCase_def tolower_def char_of_eq_iff)
  have "x = CHR ''r'' \<or> x = CHR ''R''"
  proof (cases "65 \<le> (of_char x :: nat) \<and> (of_char x :: nat) \<le> 90")
    case True
    with t have "take_bit 8 ((of_char x :: nat) + 32) = 114"
      by (simp add: tolower_def char_of_eq_iff)
    moreover from True have "take_bit 8 ((of_char x :: nat) + 32) = (of_char x :: nat) + 32"
      by (simp add: take_bit_eq_mod)
    ultimately have "(of_char x :: nat) = of_char (CHR ''R'')" by simp
    then have "x = CHR ''R''" by (simp only: of_char_eq_iff)
    then show ?thesis by simp
  next
    case False
    with t show ?thesis by (simp add: tolower_def)
  qed
  with c show "c = ''r'' \<or> c = ''R''" by simp
next
  assume "c = ''r'' \<or> c = ''R''"
  then show "equalsIgnoreCase c ''r''"
    by (auto simp: equalsIgnoreCase_def tolower_def char_of_eq_iff)
qed

lemma handleCommand_r:
  "serialLine env = Some line \<Longrightarrow> equalsIgnoreCase (trim line) ''r'' \<Longrightarrow>
   handleCommand g env = (g, readAllSensors g (cmdSamples env))"
  by (auto simp: handleCommand_def Let_def equalsIgnoreCase_r)

lemma handleCommand_st:
  "serialLine env = Some line \<Longrightarrow> trim line = ''st'' \<Longrightarrow>
   handleCommand g env = (g\<lparr>isRunning := False\<rparr>, [SerialPrintln ''Execution halted.''])"
  by (simp add: handleCommand_def Let_def)

lemma handleCommand_None:
  "serialLine env = None \<Longrightarrow> handleCommand g env = (g, [])"
  by (simp add: handleCommand_def)

text \<open>The first print of \<^verbatim>\<open>logSensorValues\<close> marks the daily log in a trace.\<close>

lemma log_not_in_evaluateOverallQuality:
  "SerialPrint ''Logging Sensor Values at: '' \<notin> set (evaluateOverallQuality p t d)"
  by (simp add: evaluateOverallQuality_def Let_def)

lemma log_not_in_readAllSensors:
  "SerialPrint ''Logging Sensor Values at: '' \<notin> set (readAllSensors g a)"
  by (simp add: readAllSensors_def Let_def log_not_in_evaluateOverallQuality)

lemma log_not_in_handleCommand:
  "SerialPrint ''Logging Sensor Values at: '' \<notin> set (snd (handleCommand g env))"
  by (simp add: handleCommand_def Let_def log_not_in_readAllSensors split: option.split)

lemma log_in_dailyLog:
  "SerialPrint ''Logging Sensor Values at: '' \<in> set (dailyLog now)
     \<longleftrightarrow> hour now = 10 \<and> minute now = 0 \<and> second now = 0"
  by (simp add: dailyLog_def logSensorValues_def)

text \<open>The two ways through \<^verbatim>\<open>loop\<close> after the command.\<close>

lemma loop_running:
  "isRunning (fst (handleCommand g env)) \<Longrightarrow>
   loop g env =
     (if millisCheck env - lastReadingTime g \<ge> readingInterval
      then ((fst (handleCommand g env))\<lparr>lastReadingTime := millisSet env\<rparr>,
            snd (handleCommand g env) @ dailyLog (rtcNow env)
              @ readAllSensors ((fst (handleCommand g env))\<lparr>lastReadingTime := millisSet env\<rparr>)
                  (periodicSamples env))
      else (fst (handleCommand g env), snd (handleCommand g env) @ dailyLog (rtcNow env)))"
  by (simp add: loop_def Let_def case_prod_beta handleCommand_lastReadingTime)

lemma loop_halted:
  "\<not> isRunning (fst (handleCommand g env)) \<Longrightarrow>
   loop g env = (fst (handleCommand g env), snd (handleCommand g env) @ [Delay 100])"
  by (simp add: loop_def Let_def case_prod_beta)

section \<open>Lemmas on the pH bands\<close>

lemma mapVoltageToPH_isCont:
  "isCont (\<lambda>v. mapVoltageToPH v pl ph vl vh) a"
  unfolding mapVoltageToPH_def divide_inverse by (intro continuous_intros)

text \<open>Two continuous pieces that meet at \<open>a\<close> give a function continuous at \<open>a\<close>.\<close>

lemma isCont_glue:
  fixes a :: real
  assumes A: "isCont A a" and B: "isCont B a" and eq: "A a = B a"
    and lo: "lo < a" and hi: "a < hi"
    and f: "\<And>x. lo < x \<Longrightarrow> x < hi \<Longrightarrow> f x = (if x \<le> a then A x else B x)"
  shows "isCont f a"
proof -
  have "continuous (at_left a) A"
    using A by (rule continuous_at_imp_continuous_at_within)
  moreover have "(B \<longlongrightarrow> A a) (at_right a)"
    using continuous_at_imp_continuous_at_within [OF B, of "{a<..}"]
    by (simp add: continuous_within eq)
  ultimately have h: "isCont (\<lambda>x. if x \<le> a then A x else B x) a"
    by (rule isCont_If_ge)
  have "eventually (\<lambda>x. x \<in> {lo<..<hi}) (nhds a)"
    using lo hi by (intro eventually_nhds_in_open) simp_all
  then have "eventually (\<lambda>x. f x = (if x \<le> a then A x else B x)) (nhds a)"
    by (rule eventually_mono) (simp add: f)
  then show ?thesis
    using h by (simp add: isCont_cong)
qed

lemma pHFromVoltage_isCont_16: "isCont pHFromVoltage 1.6"
proof (rule isCont_glue [where lo = 1 and hi = 2])
  show "isCont (\<lambda>v. mapVoltageToPH v 7.0 8.0 1.0 1.6) 1.6"
    by (rule mapVoltageToPH_isCont)
  show "isCont (\<lambda>v. mapVoltageToPH v 8.0 9.0 1.6 2.0) 1.6"
    by (rule mapVoltageToPH_isCont)
  show "mapVoltageToPH 1.6 7.0 8.0 1.0 1.6 = mapVoltageToPH 1.6 8.0 9.0 1.6 2.0"
    by (simp add: mapVoltageToPH_def)
  show "\<And>x. 1 < x \<Longrightarrow> x < 2 \<Longrightarrow> pHFromVoltage x =
      (if x \<le> 1.6 then mapVoltageToPH x 7.0 8.0 1.0 1.6 else mapVoltageToPH x 8.0 9.0 1.6 2.0)"
    by (auto simp: pHFromVoltage_def mapVoltageToPH_def)
qed simp_all

lemma pHFromVoltage_isCont_25: "isCont pHFromVoltage 2.5"
proof (rule isCont_glue [where lo = 2 and hi = 3])
  show "isCont (\<lambda>v. mapVoltageToPH v 6.0 7.5 2.0 2.5) 2.5"
    by (rule mapVoltageToPH_isCont)
  show "isCont (\<lambda>v. mapVoltageToPH v 7.5 9.0 2.5 3.0) 2.5"
    by (rule mapVoltageToPH_isCont)
  show "mapVoltageToPH 2.5 6.0 7.5 2.0 2.5 = mapVoltageToPH 2.5 7.5 9.0 2.5 3.0"
    by (simp add: mapVoltageToPH_def)
  show "\<And>x. 2 < x \<Longrightarrow> x < 3 \<Longrightarrow> pHFromVoltage x =
      (if x \<le> 2.5 then mapVoltageToPH x 6.0 7.5 2.0 2.5 else mapVoltageToPH x 7.5 9.0 2.5 3.0)"
  proof -
    fix x :: real
    assume "2 < x" "x < 3"
    show "pHFromVoltage x =
      (if x \<le> 2.5 then mapVoltageToPH x 6.0 7.5 2.0 2.5 else mapVoltageToPH x 7.5 9.0 2.5 3.0)"
    proof (cases "x = 2.5")
      case True
      show ?thesis
        unfolding True by (simp add: pHFromVoltage_def mapVoltageToPH_def)
    next
      case False
      with \<open>2 < x\<close> \<open>x < 3\<close> show ?thesis
        by (auto simp: pHFromVoltage_def)
    qed
  qed
qed simp_all

text \<open>Below 2.0 the band from 8.0 to 9.0 applies, so the values approach 9.0 from the left.\<close>

lemma pHFromVoltage_left_limit_2: "(pHFromVoltage \<longlongrightarrow> 9.0) (at_left 2.0)"
proof -
  have "isCont (\<lambda>v. mapVoltageToPH v 8.0 9.0 1.6 2.0) 2.0"
    by (rule mapVoltageToPH_isCont)
  then have "((\<lambda>v. mapVoltageToPH v 8.0 9.0 1.6 2.0) \<longlongrightarrow> mapVoltageToPH 2.0 8.0 9.0 1.6 2.0)
      (at_left 2.0)"
    using continuous_at_imp_continuous_at_within continuous_within by blast
  then have l: "((\<lambda>v. mapVoltageToPH v 8.0 9.0 1.6 2.0) \<longlongrightarrow> 9.0) (at_left 2.0)"
    by (simp add: mapVoltageToPH_def)
  have "eventually (\<lambda>x. x \<in> {1.6<..<2.0}) (at_left (2.0::real))"
    by (rule eventually_at_left_real) simp
  then have "eventually (\<lambda>x. pHFromVoltage x = mapVoltageToPH x 8.0 9.0 1.6 2.0) (at_left 2.0)"
    by (rule eventually_mono) (simp add: pHFromVoltage_def)
  then show ?thesis
    using l by (simp add: tendsto_cong)
qed

text \<open>
  No sample of the pH channel comes within 1/2000 of a bound of a band or of a quality
  threshold: on the samples, the branch that exact arithmetic takes is the branch taken
  under any rounding error below that margin.
\<close>

lemma pHVoltageOf_scaled:
  "pHVoltageOf raw - real_of_int T / 1023000 = real_of_int (5000 * raw - T) / 1023000"
  by (simp add: pHVoltageOf_def PH_VOLTAGE_REF_def field_simps)

lemma pHVoltageOf_margin:
  assumes "512 \<le> \<bar>5000 * raw - T\<bar>"
  shows "\<bar>pHVoltageOf raw - real_of_int T / 1023000\<bar> > 1 / 2000"
proof -
  have "\<bar>pHVoltageOf raw - real_of_int T / 1023000\<bar> = real_of_int \<bar>5000 * raw - T\<bar> / 1023000"
    by (simp only: pHVoltageOf_scaled abs_divide of_int_abs)
  moreover have "real_of_int 512 \<le> real_of_int \<bar>5000 * raw - T\<bar>"
    using assms by (simp only: of_int_le_iff)
  ultimately show ?thesis by simp
qed

lemma sample_gap:
  fixes raw k T :: int
  assumes "5000 * k + 512 \<le> T" and "T + 512 \<le> 5000 * (k + 1)"
  shows "512 \<le> \<bar>5000 * raw - T\<bar>"
proof (cases "raw \<le> k")
  case True
  then have "5000 * raw \<le> 5000 * k" by simp
  with assms have "512 \<le> T - 5000 * raw" by linarith
  then show ?thesis by linarith
next
  case False
  then have "5000 * (k + 1) \<le> 5000 * raw" by simp
  with assms have "512 \<le> 5000 * raw - T" by linarith
  then show ?thesis by linarith
qed

lemma pHVoltageOf_off_thresholds:
  assumes "t \<in> {1.0, 1.6, 2.0, 2.29, 2.3, 2.5, 3.0}"
  shows "\<bar>pHVoltageOf raw - t\<bar> > 1 / 2000"
proof -
  from assms consider "t = 1.0" | "t = 1.6" | "t = 2.0" | "t = 2.29" | "t = 2.3" | "t = 2.5" | "t = 3.0"
    by auto
  then show ?thesis
  proof cases
    case 1
    have m: "512 \<le> \<bar>5000 * raw - 1023000\<bar>" by (rule sample_gap [of 204]) simp_all
    show ?thesis unfolding 1 using pHVoltageOf_margin [OF m] by simp
  next
    case 2
    have m: "512 \<le> \<bar>5000 * raw - 1636800\<bar>" by (rule sample_gap [of 327]) simp_all
    show ?thesis unfolding 2 using pHVoltageOf_margin [OF m] by simp
  next
    case 3
    have m: "512 \<le> \<bar>5000 * raw - 2046000\<bar>" by (rule sample_gap [of 409]) simp_all
    show ?thesis unfolding 3 using pHVoltageOf_margin [OF m] by simp
  next
    case 4
    have m: "512 \<le> \<bar>5000 * raw - 2342670\<bar>" by (rule sample_gap [of 468]) simp_all
    show ?thesis unfolding 4 using pHVoltageOf_margin [OF m] by simp
  next
    case 5
    have m: "512 \<le> \<bar>5000 * raw - 2352900\<bar>" by (rule sample_gap [of 470]) simp_all
    show ?thesis unfolding 5 using pHVoltageOf_margin [OF m] by simp
  next
    case 6
    have m: "512 \<le> \<bar>5000 * raw - 2557500\<bar>" by (rule sample_gap [of 511]) simp_all
    show ?thesis unfolding 6 using pHVoltageOf_margin [OF m] by simp
  next
    case 7
    have m: "512 \<le> \<bar>5000 * raw - 3069000\<bar>" by (rule sample_gap [of 613]) simp_all
    show ?thesis unfolding 7 using pHVoltageOf_margin [OF m] by simp
  qed
qed

section \<open>Properties\<close>

text \<open>
  C1. The pH quality label is fixed by the voltage thresholds: at most 2.29 is
  \<open>Acidic - Bad\<close>, from 2.30 to 2.50 is \<open>Good\<close>, every other voltage is
  \<open>Bad - Alkaline\<close>; the computed pH passed as second argument never changes the label.
\<close>

theorem evaluatePHQuality_by_voltage:
  "evaluatePHQuality voltage pH =
     (if voltage \<le> 2.29 then ''Acidic - Bad''
      else if 2.30 \<le> voltage \<and> voltage \<le> 2.50 then ''Good''
      else ''Bad - Alkaline'')
   \<and> evaluatePHQuality voltage pH1 = evaluatePHQuality voltage pH2"
  by (simp add: evaluatePHQuality_def)

theorem evaluatePHQuality_by_voltage_witness:
  "evaluatePHQuality 2.29 6.87 = ''Acidic - Bad''
   \<and> evaluatePHQuality 2.30 6.9 = ''Good''
   \<and> evaluatePHQuality 2.50 7.5 = ''Good''
   \<and> evaluatePHQuality 2.51 7.53 = ''Bad - Alkaline''
   \<and> evaluatePHQuality 2.295 0 = ''Bad - Alkaline''"
  using evaluatePHQuality_by_voltage [of "2.29" "6.87"]
    evaluatePHQuality_by_voltage [of "2.30" "6.9"]
    evaluatePHQuality_by_voltage [of "2.50" "7.5"]
    evaluatePHQuality_by_voltage [of "2.51" "7.53"]
    evaluatePHQuality_by_voltage [of "2.295" 0]
  by simp

text \<open>
  C2, as the code has it. In each of the four bands the pH is the linear interpolation
  \<open>pHLow + (voltage - vLow) * (pHHigh - pHLow) / (vHigh - vLow)\<close> of the band's
  bounds; the function is continuous at the band boundaries 1.6 and 2.5; at the boundary
  2.0 the value is 6.0 while the values of the band below approach 9.0; and the voltage
  1.3 gives the pH 7.5.
\<close>

theorem pHFromVoltage_piecewise_linear:
  "(1.0 \<le> v \<and> v < 1.6 \<longrightarrow> pHFromVoltage v = 7.0 + (v - 1.0) * (8.0 - 7.0) / (1.6 - 1.0))
   \<and> (1.6 \<le> v \<and> v < 2.0 \<longrightarrow> pHFromVoltage v = 8.0 + (v - 1.6) * (9.0 - 8.0) / (2.0 - 1.6))
   \<and> (2.0 \<le> v \<and> v < 2.5 \<longrightarrow> pHFromVoltage v = 6.0 + (v - 2.0) * (7.5 - 6.0) / (2.5 - 2.0))
   \<and> (2.5 \<le> v \<and> v < 3.0 \<longrightarrow> pHFromVoltage v = 7.5 + (v - 2.5) * (9.0 - 7.5) / (3.0 - 2.5))
   \<and> isCont pHFromVoltage 1.6 \<and> isCont pHFromVoltage 2.5
   \<and> pHFromVoltage 2.0 = 6.0 \<and> (pHFromVoltage \<longlongrightarrow> 9.0) (at_left 2.0)
   \<and> pHFromVoltage 1.3 = 7.5"
proof -
  have "pHFromVoltage 2.0 = 6.0"
    by (simp add: pHFromVoltage_def mapVoltageToPH_def)
  moreover have "pHFromVoltage 1.3 = 7.5"
    by (simp add: pHFromVoltage_def mapVoltageToPH_def)
  moreover have "1.0 \<le> v \<and> v < 1.6 \<longrightarrow>
      pHFromVoltage v = 7.0 + (v - 1.0) * (8.0 - 7.0) / (1.6 - 1.0)"
    by (simp add: pHFromVoltage_def mapVoltageToPH_def)
  moreover have "1.6 \<le> v \<and> v < 2.0 \<longrightarrow>
      pHFromVoltage v = 8.0 + (v - 1.6) * (9.0 - 8.0) / (2.0 - 1.6)"
    by (simp add: pHFromVoltage_def mapVoltageToPH_def)
  moreover have "2.0 \<le> v \<and> v < 2.5 \<longrightarrow>
      pHFromVoltage v = 6.0 + (v - 2.0) * (7.5 - 6.0) / (2.5 - 2.0)"
    by (simp add: pHFromVoltage_def mapVoltageToPH_def)
  moreover have "2.5 \<le> v \<and> v < 3.0 \<longrightarrow>
      pHFromVoltage v = 7.5 + (v - 2.5) * (9.0 - 7.5) / (3.0 - 2.5)"
    by (simp add: pHFromVoltage_def mapVoltageToPH_def)
  ultimately show ?thesis
    using pHFromVoltage_isCont_16 pHFromVoltage_isCont_25 pHFromVoltage_left_limit_2 by blast
qed

theorem pHFromVoltage_piecewise_linear_witness:
  "pHFromVoltage 1.3 = 7.5 \<and> pHFromVoltage 1.8 = 8.5
   \<and> pHFromVoltage 2.25 = 6.75 \<and> pHFromVoltage 2.75 = 8.25"
  using pHFromVoltage_piecewise_linear [of "1.3"] pHFromVoltage_piecewise_linear [of "1.8"]
    pHFromVoltage_piecewise_linear [of "2.25"] pHFromVoltage_piecewise_linear [of "2.75"]
  by simp

text \<open>
  C2, as stated, asks for continuity at every band boundary. It fails at 2.0: the value
  there is 6.0, the limit from the left is 9.0, so the function is not continuous at 2.0.
\<close>

theorem pHFromVoltage_jump_at_2:
  "pHFromVoltage 2.0 = 6.0 \<and> (pHFromVoltage \<longlongrightarrow> 9.0) (at_left 2.0)
   \<and> \<not> isCont pHFromVoltage 2.0"
proof (intro conjI)
  show v: "pHFromVoltage 2.0 = 6.0"
    by (simp add: pHFromVoltage_def mapVoltageToPH_def)
  show l: "(pHFromVoltage \<longlongrightarrow> 9.0) (at_left 2.0)"
    by (rule pHFromVoltage_left_limit_2)
  show "\<not> isCont pHFromVoltage 2.0"
  proof
    assume "isCont pHFromVoltage 2.0"
    then have "(pHFromVoltage \<longlongrightarrow> pHFromVoltage 2.0) (at_left 2.0)"
      using continuous_at_imp_continuous_at_within continuous_within by blast
    with l have "pHFromVoltage 2.0 = 9.0"
      by (intro tendsto_unique [OF trivial_limit_at_left_real])
    with v show False by simp
  qed
qed

text \<open>
  C3. The verdict is \<open>Excellent\<close> exactly when the three labels are all \<open>Good\<close>. For
  every other triple the verdict is \<open>Poor, Needs Treatment\<close> and the advisory line is
  printed between the verdict and the closing rule; for three \<open>Good\<close> labels no advisory
  line is printed.
\<close>

theorem overall_verdict:
  "(overallOf p t d = ''Excellent'' \<longleftrightarrow> p = ''Good'' \<and> t = ''Good'' \<and> d = ''Good'')
   \<and> (\<not> (p = ''Good'' \<and> t = ''Good'' \<and> d = ''Good'') \<longrightarrow>
        overallOf p t d = ''Poor, Needs Treatment''
        \<and> evaluateOverallQuality p t d =
            [SerialPrintln ''Overall Water Quality: Poor, Needs Treatment'',
             SerialPrintln advisory,
             SerialPrintln ''------------------------------------------''])
   \<and> (p = ''Good'' \<and> t = ''Good'' \<and> d = ''Good'' \<longrightarrow>
        evaluateOverallQuality p t d =
            [SerialPrintln ''Overall Water Quality: Excellent'',
             SerialPrintln ''------------------------------------------''])"
  by (simp add: overallOf_def evaluateOverallQuality_def)

theorem overall_verdict_witness:
  "overallOf ''Good'' ''Good'' ''Bad'' = ''Poor, Needs Treatment''
   \<and> evaluateOverallQuality ''Good'' ''Good'' ''Bad'' =
        [SerialPrintln ''Overall Water Quality: Poor, Needs Treatment'',
         SerialPrintln advisory,
         SerialPrintln ''------------------------------------------'']
   \<and> overallOf ''Good'' ''Good'' ''Good'' = ''Excellent''
   \<and> evaluateOverallQuality ''Good'' ''Good'' ''Good'' =
        [SerialPrintln ''Overall Water Quality: Excellent'',
         SerialPrintln ''------------------------------------------'']"
  using overall_verdict [of "''Good''" "''Good''" "''Bad''"]
    overall_verdict [of "''Good''" "''Good''" "''Good''"]
  by simp

text \<open>
  C4. In a pass of the loop that is running after the command has been handled, the
  daily log is written if and only if the clock reports hour 10, minute 0, second 0.
  The log is recognised in the trace by the print that opens it.
\<close>

theorem daily_log_exact_second:
  "isRunning (fst (handleCommand g env)) \<Longrightarrow>
   SerialPrint ''Logging Sensor Values at: '' \<in> set (snd (loop g env))
     \<longleftrightarrow> hour (rtcNow env) = 10 \<and> minute (rtcNow env) = 0 \<and> second (rtcNow env) = 0"
  by (simp add: loop_running log_not_in_handleCommand log_not_in_readAllSensors log_in_dailyLog)

theorem daily_log_exact_second_witness:
  "isRunning (fst (handleCommand initial_globals (sample_env None (sample_time 10 0 0) 5)))
   \<and> SerialPrint ''Logging Sensor Values at: ''
        \<in> set (snd (loop initial_globals (sample_env None (sample_time 10 0 0) 5)))
   \<and> SerialPrint ''Logging Sensor Values at: ''
        \<notin> set (snd (loop initial_globals (sample_env None (sample_time 10 0 1) 5)))
   \<and> SerialPrint ''Logging Sensor Values at: ''
        \<notin> set (snd (loop initial_globals (sample_env None (sample_time 9 59 59) 5)))"
proof -
  have h: "isRunning (fst (handleCommand initial_globals (sample_env None now 5)))" for now
    by (simp add: handleCommand_def sample_env_def initial_globals_def)
  show ?thesis
    using h [of "sample_time 10 0 0"]
      daily_log_exact_second [OF h [of "sample_time 10 0 0"]]
      daily_log_exact_second [OF h [of "sample_time 10 0 1"]]
      daily_log_exact_second [OF h [of "sample_time 9 59 59"]]
    by (simp add: sample_env_def sample_time_def)
qed

text \<open>
  C5. When the trimmed console line equals \<open>r\<close> without regard to case, the command
  handler runs \<^verbatim>\<open>readAllSensors\<close> at once: its output opens the trace of the pass,
  whatever the run state and the timers are, and only the pause of a halted pass or the
  scheduler's own output follows. After the line \<open>st\<close> in one pass and \<open>r\<close> in the
  next, the system is halted and the second pass still performs the reading.
\<close>

theorem read_command_immediate:
  "(serialLine env = Some line \<and> equalsIgnoreCase (trim line) ''r'' \<longrightarrow>
      handleCommand g env = (g, readAllSensors g (cmdSamples env))
      \<and> snd (loop g env) =
          readAllSensors g (cmdSamples env)
          @ (if \<not> isRunning g then [Delay 100]
             else dailyLog (rtcNow env)
                  @ (if millisCheck env - lastReadingTime g \<ge> 60000
                     then readAllSensors (fst (loop g env)) (periodicSamples env) else [])))
   \<and> (serialLine env1 = Some line1 \<and> trim line1 = ''st''
        \<and> serialLine env2 = Some line2 \<and> equalsIgnoreCase (trim line2) ''r'' \<longrightarrow>
      \<not> isRunning (fst (loop g env1))
      \<and> snd (loop (fst (loop g env1)) env2)
          = readAllSensors (fst (loop g env1)) (cmdSamples env2) @ [Delay 100])"
proof (intro conjI impI)
  assume h: "serialLine env = Some line \<and> equalsIgnoreCase (trim line) ''r''"
  then show hc: "handleCommand g env = (g, readAllSensors g (cmdSamples env))"
    by (simp add: handleCommand_r)
  show "snd (loop g env) =
          readAllSensors g (cmdSamples env)
          @ (if \<not> isRunning g then [Delay 100]
             else dailyLog (rtcNow env)
                  @ (if millisCheck env - lastReadingTime g \<ge> 60000
                     then readAllSensors (fst (loop g env)) (periodicSamples env) else []))"
    by (cases "isRunning g") (simp_all add: loop_running loop_halted hc readingInterval_def)
next
  assume h: "serialLine env1 = Some line1 \<and> trim line1 = ''st''
        \<and> serialLine env2 = Some line2 \<and> equalsIgnoreCase (trim line2) ''r''"
  then have "handleCommand g env1 =
      (g\<lparr>isRunning := False\<rparr>, [SerialPrintln ''Execution halted.''])"
    by (simp add: handleCommand_st)
  then have l1: "fst (loop g env1) = g\<lparr>isRunning := False\<rparr>"
    by (simp add: loop_halted)
  then show "\<not> isRunning (fst (loop g env1))" by simp
  from h have "handleCommand (fst (loop g env1)) env2
      = (fst (loop g env1), readAllSensors (fst (loop g env1)) (cmdSamples env2))"
    by (simp add: handleCommand_r)
  with l1 show "snd (loop (fst (loop g env1)) env2)
          = readAllSensors (fst (loop g env1)) (cmdSamples env2) @ [Delay 100]"
    by (simp add: loop_halted)
qed

theorem read_command_immediate_witness:
  "serialLine (sample_env (Some ''st'') (sample_time 9 0 0) 5) = Some ''st''
   \<and> trim ''st'' = ''st''
   \<and> serialLine (sample_env (Some '' R '') (sample_time 9 0 1) 70000) = Some '' R ''
   \<and> equalsIgnoreCase (trim '' R '') ''r''
   \<and> \<not> isRunning (fst (loop initial_globals (sample_env (Some ''st'') (sample_time 9 0 0) 5)))
   \<and> snd (loop (fst (loop initial_globals (sample_env (Some ''st'') (sample_time 9 0 0) 5)))
             (sample_env (Some '' R '') (sample_time 9 0 1) 70000))
       = readAllSensors (fst (loop initial_globals (sample_env (Some ''st'') (sample_time 9 0 0) 5)))
           \<lparr>pHRaw = 620, turbRaw = 600, tdsRaw = 300\<rparr> @ [Delay 100]
   \<and> handleCommand initial_globals (sample_env (Some '' R '') (sample_time 9 0 1) 70000)
       = (initial_globals, readAllSensors initial_globals \<lparr>pHRaw = 620, turbRaw = 600, tdsRaw = 300\<rparr>)"
proof -
  have a: "serialLine (sample_env (Some ''st'') (sample_time 9 0 0) 5) = Some ''st''"
    by (simp add: sample_env_def)
  have b: "trim ''st'' = ''st''"
    by (simp add: trim_def isspace_def)
  have c: "serialLine (sample_env (Some '' R '') (sample_time 9 0 1) 70000) = Some '' R ''"
    by (simp add: sample_env_def)
  have d: "equalsIgnoreCase (trim '' R '') ''r''"
    by (simp add: trim_def isspace_def equalsIgnoreCase_def tolower_def char_of_eq_iff)
  have e: "cmdSamples (sample_env (Some '' R '') (sample_time 9 0 1) 70000)
      = \<lparr>pHRaw = 620, turbRaw = 600, tdsRaw = 300\<rparr>"
    by (simp add: sample_env_def)
  show ?thesis
    using a b c d
      read_command_immediate [of "sample_env (Some '' R '') (sample_time 9 0 1) 70000" "'' R ''"
        initial_globals "sample_env (Some ''st'') (sample_time 9 0 0) 5" "''st''"
        "sample_env (Some '' R '') (sample_time 9 0 1) 70000" "'' R ''"]
    by (simp only: e) simp
qed

text \<open>
  C6. In a pass that is running after the command has been handled, the periodic reading
  fires exactly when \<^verbatim>\<open>millis() - lastReadingTime\<close>, in 32-bit unsigned arithmetic, is at
  least 60000. When it fires, \<^verbatim>\<open>lastReadingTime\<close> becomes the value that \<^verbatim>\<open>millis()\<close>
  returns at the assignment and \<^verbatim>\<open>readAllSensors\<close> closes the trace of the pass; when it
  does not fire, \<^verbatim>\<open>lastReadingTime\<close> keeps its value and no such reading is in the trace.
\<close>

theorem periodic_trigger:
  "isRunning (fst (handleCommand g env)) \<Longrightarrow>
   lastReadingTime (fst (loop g env)) =
     (if millisCheck env - lastReadingTime g \<ge> 60000 then millisSet env else lastReadingTime g)
   \<and> snd (loop g env) =
       snd (handleCommand g env) @ dailyLog (rtcNow env)
       @ (if millisCheck env - lastReadingTime g \<ge> 60000
          then readAllSensors (fst (loop g env)) (periodicSamples env) else [])"
  by (simp add: loop_running handleCommand_lastReadingTime readingInterval_def)

theorem periodic_trigger_witness:
  "isRunning (fst (handleCommand initial_globals (sample_env None (sample_time 9 0 0) 60000)))
   \<and> lastReadingTime (fst (loop initial_globals (sample_env None (sample_time 9 0 0) 60000))) = 60001
   \<and> snd (loop initial_globals (sample_env None (sample_time 9 0 0) 60000)) =
       readAllSensors (fst (loop initial_globals (sample_env None (sample_time 9 0 0) 60000)))
         \<lparr>pHRaw = 480, turbRaw = 600, tdsRaw = 100\<rparr>
   \<and> lastReadingTime (fst (loop initial_globals (sample_env None (sample_time 9 0 0) 59999))) = 0
   \<and> snd (loop initial_globals (sample_env None (sample_time 9 0 0) 59999)) = []
   \<and> lastReadingTime (fst (loop (initial_globals\<lparr>lastReadingTime := 4294967280\<rparr>)
                                 (sample_env None (sample_time 9 0 0) 59984))) = 59985"
proof -
  have h: "isRunning (fst (handleCommand (initial_globals\<lparr>lastReadingTime := t\<rparr>)
      (sample_env None now ms)))" for t now ms
    by (simp add: handleCommand_def sample_env_def initial_globals_def)
  have i: "initial_globals\<lparr>lastReadingTime := 0\<rparr> = initial_globals"
    by (simp add: initial_globals_def)
  show ?thesis
    using h [of 0 "sample_time 9 0 0" 60000]
      periodic_trigger [OF h [of 0 "sample_time 9 0 0" 60000]]
      periodic_trigger [OF h [of 0 "sample_time 9 0 0" 59999]]
      periodic_trigger [OF h [of 4294967280 "sample_time 9 0 0" 59984]]
    by (simp add: i sample_env_def sample_time_def handleCommand_def dailyLog_def initial_globals_def)
qed

text \<open>
  C7. \<^verbatim>\<open>calculateTDS\<close> equals the reference definition at the global temperature, for
  every raw value and every temperature, so its result is a function of these two
  alone; at raw value 0 and 25.0 degrees the result is 0. (Where the compensation
  factor is zero, at -25 degrees, both sides are the same quotient by zero.)
\<close>

theorem calculateTDS_refines_spec:
  "calculateTDS g raw = tdsFromRaw_spec raw (temperature g)
   \<and> calculateTDS (g\<lparr>temperature := 25.0\<rparr>) 0 = 0"
  by (simp add: calculateTDS_def tdsFromRaw_spec_def TDS_VOLTAGE_REF_def CALIBRATION_FACTOR_def
        Let_def power2_eq_square power3_eq_cube algebra_simps)

theorem calculateTDS_refines_spec_witness:
  "calculateTDS initial_globals 300 = tdsFromRaw_spec 300 25.0
   \<and> calculateTDS initial_globals 300 = 52909015467 / 134217728
   \<and> calculateTDS initial_globals 0 = 0"
  using calculateTDS_refines_spec [of initial_globals 300]
    calculateTDS_refines_spec [of initial_globals 0]
  by (simp add: initial_globals_def tdsFromRaw_spec_def Let_def power2_eq_square power3_eq_cube)

text \<open>
  C8. When the pH voltage is below 1.0 or at least 3.0, the pH value is the sentinel
  0.0, and \<^verbatim>\<open>readAllSensors\<close> goes on as for any other value: it prints 0.0 as the pH
  value on the console, prints the quality label of the voltage, and sends 0.0 to the
  companion board.
\<close>

theorem pH_out_of_band_sentinel:
  "pHVoltageOf (pHRaw a) < 1.0 \<or> pHVoltageOf (pHRaw a) \<ge> 3.0 \<Longrightarrow>
   pHFromVoltage (pHVoltageOf (pHRaw a)) = 0.0
   \<and> take 5 (readAllSensors g a) =
       [SerialPrint ''pH Value: '', SerialPrintlnFloat 0.0 2,
        SerialPrint ''pH Quality: '',
        SerialPrintln (evaluatePHQuality (pHVoltageOf (pHRaw a)) 0.0),
        MySerialPrintlnFloat 0.0 2]"
  by (auto simp: pHFromVoltage_def readAllSensors_def Let_def)

theorem pH_out_of_band_sentinel_witness:
  "pHVoltageOf (pHRaw \<lparr>pHRaw = 620, turbRaw = 600, tdsRaw = 300\<rparr>) \<ge> 3.0
   \<and> pHFromVoltage (pHVoltageOf 620) = 0.0
   \<and> take 5 (readAllSensors initial_globals \<lparr>pHRaw = 620, turbRaw = 600, tdsRaw = 300\<rparr>) =
       [SerialPrint ''pH Value: '', SerialPrintlnFloat 0.0 2,
        SerialPrint ''pH Quality: '', SerialPrintln ''Bad - Alkaline'',
        MySerialPrintlnFloat 0.0 2]"
proof -
  have h: "pHVoltageOf (pHRaw \<lparr>pHRaw = 620, turbRaw = 600, tdsRaw = 300\<rparr>) \<ge> 3.0"
    by (simp add: pHVoltageOf_def PH_VOLTAGE_REF_def)
  have q: "evaluatePHQuality (pHVoltageOf 620) 0.0 = ''Bad - Alkaline''"
    by (simp add: evaluatePHQuality_def pHVoltageOf_def PH_VOLTAGE_REF_def)
  show ?thesis
    using h q pH_out_of_band_sentinel [OF disjI2, OF h, of initial_globals]
    by simp
qed

text \<open>
  C9. For raw values from 0 to 1023 the two raw-to-voltage conversions on the scale of
  1023 are monotone in the raw value and lie between 0 and the reference voltage 5.0.
\<close>

theorem raw_to_voltage_monotone_bounded:
  "0 \<le> r1 \<and> r1 \<le> r2 \<and> r2 \<le> 1023 \<Longrightarrow>
   pHVoltageOf r1 \<le> pHVoltageOf r2 \<and> 0 \<le> pHVoltageOf r1 \<and> pHVoltageOf r2 \<le> PH_VOLTAGE_REF
   \<and> turbVoltageOf r1 \<le> turbVoltageOf r2 \<and> 0 \<le> turbVoltageOf r1 \<and> turbVoltageOf r2 \<le> 5.0"
  by (simp add: pHVoltageOf_def turbVoltageOf_def PH_VOLTAGE_REF_def divide_right_mono)

theorem raw_to_voltage_monotone_bounded_witness:
  "(0::int) \<le> 300 \<and> (300::int) \<le> 1023 \<and> (1023::int) \<le> 1023
   \<and> pHVoltageOf 300 \<le> pHVoltageOf 1023 \<and> 0 \<le> pHVoltageOf 300
   \<and> pHVoltageOf 1023 \<le> PH_VOLTAGE_REF
   \<and> turbVoltageOf 300 \<le> turbVoltageOf 1023 \<and> 0 \<le> turbVoltageOf 300
   \<and> turbVoltageOf 1023 \<le> 5.0"
  using raw_to_voltage_monotone_bounded [of 300 1023]
  by simp

text \<open>
  C10. \<^verbatim>\<open>lastReadingTime\<close> changes in a pass only when the pass is running and the
  periodic trigger fires. A reading started by the command \<open>r\<close> leaves the globals as
  they are, and the globals after the pass are those of the same pass without any
  command: the next periodic reading is neither delayed nor advanced.
\<close>

theorem read_command_keeps_lastReadingTime:
  "lastReadingTime (fst (loop g env)) =
     (if isRunning (fst (handleCommand g env)) \<and> millisCheck env - lastReadingTime g \<ge> 60000
      then millisSet env else lastReadingTime g)
   \<and> (serialLine env = Some line \<and> equalsIgnoreCase (trim line) ''r'' \<longrightarrow>
        fst (handleCommand g env) = g
        \<and> fst (loop g env) = fst (loop g (env\<lparr>serialLine := None\<rparr>)))"
proof (intro conjI impI)
  show "lastReadingTime (fst (loop g env)) =
     (if isRunning (fst (handleCommand g env)) \<and> millisCheck env - lastReadingTime g \<ge> 60000
      then millisSet env else lastReadingTime g)"
    by (cases "isRunning (fst (handleCommand g env))")
       (simp_all add: loop_running loop_halted handleCommand_lastReadingTime readingInterval_def)
next
  assume h: "serialLine env = Some line \<and> equalsIgnoreCase (trim line) ''r''"
  then show hc: "fst (handleCommand g env) = g"
    by (simp add: handleCommand_r)
  have hn: "fst (handleCommand g (env\<lparr>serialLine := None\<rparr>)) = g"
    by (simp add: handleCommand_def)
  show "fst (loop g env) = fst (loop g (env\<lparr>serialLine := None\<rparr>))"
    by (cases "isRunning g") (simp_all add: loop_running loop_halted hc hn)
qed

theorem read_command_keeps_lastReadingTime_witness:
  "serialLine (sample_env (Some ''r'') (sample_time 9 0 0) 30000) = Some ''r''
   \<and> equalsIgnoreCase (trim ''r'') ''r''
   \<and> fst (handleCommand initial_globals (sample_env (Some ''r'') (sample_time 9 0 0) 30000))
       = initial_globals
   \<and> lastReadingTime (fst (loop initial_globals (sample_env (Some ''r'') (sample_time 9 0 0) 30000)))
       = 0"
proof -
  have a: "serialLine (sample_env (Some ''r'') (sample_time 9 0 0) 30000) = Some ''r''"
    by (simp add: sample_env_def)
  have b: "equalsIgnoreCase (trim ''r'') ''r''"
    by (simp add: trim_def isspace_def equalsIgnoreCase_def tolower_def)
  have c: "lastReadingTime initial_globals = 0"
    "millisCheck (sample_env (Some ''r'') (sample_time 9 0 0) 30000) = 30000"
    by (simp_all add: initial_globals_def sample_env_def)
  note t = read_command_keeps_lastReadingTime
    [of initial_globals "sample_env (Some ''r'') (sample_time 9 0 0) 30000" "''r''"]
  have t1: "lastReadingTime
      (fst (loop initial_globals (sample_env (Some ''r'') (sample_time 9 0 0) 30000))) = 0"
    using c t [THEN conjunct1] by simp
  have t2: "fst (handleCommand initial_globals (sample_env (Some ''r'') (sample_time 9 0 0) 30000))
      = initial_globals"
    using a b t [THEN conjunct2] by blast
  show ?thesis
    using a b t1 t2 by blast
qed

end
